theory Spec2Isabelle
  imports Complex_Main "HOL-Library.AList"
begin

text \<open>
  The handlers of the membership-payment functions: \<open>createPayPalOrder\<close>,
  \<open>paypalWebhookHandler\<close> and \<open>resetMonthlyEarnings\<close> as written in \<open>index.ts\<close>
  (the copies for the second generation of the function platform have the same bodies),
  and \<open>getMonthlySalesReport\<close> and \<open>getYearlySalesReport\<close> as written in
  \<open>index.js\<close>, the only place that has them. The payment processor and the document
  store are collaborators outside the repository. The processor appears as a parameter;
  the store as a state with the rules of its client for a transaction. The log lines
  are kept for the notification handler and left out elsewhere.
\<close>

section \<open>Values of the host language\<close>

text \<open>
  A JavaScript number is an IEEE 754 double: a finite value, which is a real (\<open>Num\<close>),
  the negative zero, an infinity (\<open>Infinity True\<close> is the negative one) or \<open>NaN\<close>.
  \<open>undefined\<close> is \<open>None\<close> of an option type, and so is a field of a stored
  document that is missing or \<open>null\<close>.
\<close>

datatype number = Num real | MinusZero | Infinity bool | NaN

subsection \<open>Rounding to the nearest double\<close>

text \<open>
  A double has 53 significant bits and a binary exponent from \<open>-1022\<close> to \<open>1023\<close>.
  \<open>binade\<close> finds, by counting up from \<open>-1022\<close>, the exponent \<open>k\<close> with
  \<open>2 ^ k \<le> a < 2 ^ (k + 1)\<close> (it stays at \<open>-1022\<close> below that range, where the
  doubles are evenly spaced, and stops at \<open>1024\<close>). Around \<open>a\<close> the doubles are the
  multiples of \<open>2 ^ (k - 52)\<close>; \<open>nearest\<close> takes the closest multiple, the even one
  at a tie. A result of \<open>2 ^ 1024\<close> or more is an infinity.
\<close>

definition pow2 :: "int \<Rightarrow> real" where
  "pow2 k = (if 0 \<le> k then 2 ^ nat k else 1 / 2 ^ nat (- k))"

fun binade :: "nat \<Rightarrow> int \<Rightarrow> real \<Rightarrow> int" where
  "binade 0 k a = k"
| "binade (Suc n) k a = (if a < pow2 (k + 1) then k else binade n (k + 1) a)"

definition round_even :: "real \<Rightarrow> int" where
  "round_even x =
     (let f = \<lfloor>x\<rfloor>; d = x - of_int f
      in if d < 1 / 2 then f else if 1 / 2 < d then f + 1 else if even f then f else f + 1)"

definition nearest :: "real \<Rightarrow> real" where
  "nearest a = (let q = pow2 (binade 2046 (- 1022) a - 52) in of_int (round_even (a / q)) * q)"

definition double :: "real \<Rightarrow> number" where
  "double x =
     (let r = nearest \<bar>x\<bar>
      in if 2 ^ 1024 \<le> r then Infinity (x < 0)
         else if r = 0 then (if x < 0 then MinusZero else Num 0)
         else Num (if x < 0 then - r else r))"

subsection \<open>Arithmetic and tests\<close>

fun negative :: "number \<Rightarrow> bool" where
  "negative (Num a) = (a < 0)"
| "negative MinusZero = True"
| "negative (Infinity b) = b"
| "negative NaN = False"

fun magnitude :: "number \<Rightarrow> real" where
  "magnitude (Num a) = a"
| "magnitude _ = 0"

fun is_infinite :: "number \<Rightarrow> bool" where
  "is_infinite (Infinity b) = True"
| "is_infinite _ = False"

definition is_zero :: "number \<Rightarrow> bool" where
  "is_zero x = (x = Num 0 \<or> x = MinusZero)"

fun negate :: "number \<Rightarrow> number" where
  "negate (Num a) = (if a = 0 then MinusZero else Num (- a))"
| "negate MinusZero = Num 0"
| "negate (Infinity b) = Infinity (\<not> b)"
| "negate NaN = NaN"

text \<open>
  \<open>x * y\<close> and \<open>x + y\<close>: the exact result, rounded. An infinity times zero, and
  the sum of the two infinities, are \<open>NaN\<close>; a zero result has the sign the operation
  gives it.
\<close>

definition num_times :: "number \<Rightarrow> number \<Rightarrow> number" where
  "num_times x y =
     (if x = NaN \<or> y = NaN then NaN
      else if is_infinite x \<or> is_infinite y then
        (if is_zero x \<or> is_zero y then NaN else Infinity (negative x \<noteq> negative y))
      else if is_zero x \<or> is_zero y then
        (if negative x \<noteq> negative y then MinusZero else Num 0)
      else double (magnitude x * magnitude y))"

definition num_plus :: "number \<Rightarrow> number \<Rightarrow> number" where
  "num_plus x y =
     (if x = NaN \<or> y = NaN then NaN
      else if is_infinite x then
        (if is_infinite y \<and> negative x \<noteq> negative y then NaN else x)
      else if is_infinite y then y
      else if magnitude x + magnitude y = 0 then
        (if x = MinusZero \<and> y = MinusZero then MinusZero else Num 0)
      else double (magnitude x + magnitude y))"

text \<open>\<open>x > 0\<close>; a comparison with \<open>NaN\<close> is false.\<close>

fun positive :: "number \<Rightarrow> bool" where
  "positive (Num a) = (0 < a)"
| "positive MinusZero = False"
| "positive (Infinity b) = (\<not> b)"
| "positive NaN = False"

text \<open>
  \<open>x || 0\<close> on a field that may be missing: \<open>undefined\<close>, the two zeros and \<open>NaN\<close>
  are falsy.
\<close>

fun or_zero :: "number option \<Rightarrow> number" where
  "or_zero None = Num 0"
| "or_zero (Some (Num a)) = Num a"
| "or_zero (Some MinusZero) = Num 0"
| "or_zero (Some (Infinity b)) = Infinity b"
| "or_zero (Some NaN) = Num 0"

text \<open>A string is truthy when it is present and not empty.\<close>

fun truthy :: "string option \<Rightarrow> bool" where
  "truthy None = False"
| "truthy (Some s) = (s \<noteq> [])"

text \<open>The string when it is truthy: an empty string counts as absent.\<close>

fun present :: "string option \<Rightarrow> string option" where
  "present None = None"
| "present (Some s) = (if s = [] then None else Some s)"

text \<open>\<open>a || b\<close> on strings that may be undefined.\<close>

definition or_else :: "string option \<Rightarrow> string option \<Rightarrow> string option" where
  "or_else a b = (if truthy a then a else b)"

text \<open>A template literal prints an undefined value as the word \<open>undefined\<close>.\<close>

fun interpolate :: "string option \<Rightarrow> string" where
  "interpolate None = ''undefined''"
| "interpolate (Some s) = s"

subsection \<open>parseFloat\<close>

text \<open>
  \<open>parseFloat\<close> skips leading white space (here: the ASCII white space) and reads
  the longest prefix that is a decimal literal: an optional sign, then either the word
  \<open>Infinity\<close> or digits, an optional fraction and an optional exponent. Anything after
  that prefix is ignored; with no such prefix the result is \<open>NaN\<close>. The result is the
  double nearest to the value read.
\<close>

definition is_space :: "char \<Rightarrow> bool" where
  "is_space c = (c \<in> set [CHR '' '', CHR 0x09, CHR 0x0A, CHR 0x0B, CHR 0x0C, CHR 0x0D])"

definition is_digit :: "char \<Rightarrow> bool" where
  "is_digit c = (c \<in> set ''0123456789'')"

definition digit_value :: "char \<Rightarrow> nat" where
  "digit_value c = of_char c - 48"

definition digits_value :: "string \<Rightarrow> nat" where
  "digits_value ds = foldl (\<lambda>n c. 10 * n + digit_value c) 0 ds"

text \<open>The sign in front of a literal or of an exponent: whether it is negative, and the rest.\<close>

fun read_sign :: "string \<Rightarrow> bool \<times> string" where
  "read_sign [] = (False, [])"
| "read_sign (c # cs) =
     (if c = CHR ''-'' then (True, cs)
      else if c = CHR ''+'' then (False, cs)
      else (False, c # cs))"

text \<open>The exponent part \<open>e\<close> or \<open>E\<close>, sign, digits; \<open>0\<close> when there is none.\<close>

fun read_exponent :: "string \<Rightarrow> int" where
  "read_exponent [] = 0"
| "read_exponent (c # cs) =
     (if c = CHR ''e'' \<or> c = CHR ''E'' then
        (case read_sign cs of (neg, ds) \<Rightarrow>
           (if takeWhile is_digit ds = [] then 0
            else if neg then - int (digits_value (takeWhile is_digit ds))
            else int (digits_value (takeWhile is_digit ds))))
      else 0)"

definition scale10 :: "real \<Rightarrow> int \<Rightarrow> real" where
  "scale10 m e = (if 0 \<le> e then m * 10 ^ nat e else m / 10 ^ nat (- e))"

definition parseFloat :: "string \<Rightarrow> number" where
  "parseFloat s =
     (case read_sign (dropWhile is_space s) of (neg, u) \<Rightarrow>
        if take 8 u = ''Infinity'' then Infinity neg
        else
          (let ip = takeWhile is_digit u;
               r1 = dropWhile is_digit u;
               has_point = (r1 \<noteq> [] \<and> hd r1 = CHR ''.'');
               fp = (if has_point then takeWhile is_digit (tl r1) else []);
               r2 = (if has_point then dropWhile is_digit (tl r1) else r1)
           in if ip = [] \<and> fp = [] then NaN
              else
                (let m = real (digits_value ip) + real (digits_value fp) / 10 ^ length fp;
                     v = double (scale10 m (read_exponent r2))
                 in if neg then negate v else v)))"

subsection \<open>Property lookup on an object literal\<close>

text \<open>
  \<open>obj[key]\<close> on an object literal finds the literal's own entries first and then the
  properties every object inherits from \<open>Object.prototype\<close>; only a key found in
  neither place gives \<open>undefined\<close>. An inherited property is a function or the
  prototype object itself: truthy, and without any of the fields of an entry.
\<close>

datatype 'a property = Own 'a | Inherited | Undefined

definition Object_prototype :: "string list" where
  "Object_prototype =
     [''constructor'', ''__defineGetter__'', ''__defineSetter__'', ''hasOwnProperty'',
      ''__lookupGetter__'', ''__lookupSetter__'', ''isPrototypeOf'',
      ''propertyIsEnumerable'', ''toString'', ''valueOf'', ''__proto__'',
      ''toLocaleString'']"

definition get_property :: "(string \<times> 'a) list \<Rightarrow> string \<Rightarrow> 'a property" where
  "get_property obj k =
     (case map_of obj k of
        Some v \<Rightarrow> Own v
      | None \<Rightarrow> if k \<in> set Object_prototype then Inherited else Undefined)"

section \<open>Order intake: createPayPalOrder\<close>

record tier =
  currency_code :: string
  price_value :: string
  description :: string

definition paymentTiers :: "(string \<times> tier) list" where
  "paymentTiers =
     [(''local'', \<lparr>currency_code = ''USD'', price_value = ''50.00'',
                  description = ''Local (Botswana Citizens) Membership''\<rparr>),
      (''sadc'', \<lparr>currency_code = ''USD'', price_value = ''100.00'',
                 description = ''SADC Citizens Membership''\<rparr>),
      (''global'', \<lparr>currency_code = ''USD'', price_value = ''380.00'',
                   description = ''Access for international users''\<rparr>)]"

text \<open>The data of the callable request; \<open>auth_uid\<close> is \<open>request.auth?.uid\<close>.\<close>

record callable_request =
  auth_uid :: "string option"
  selectedTierId :: "string option"
  userId :: "string option"

text \<open>The body of the order-creation request handed to the payment processor.\<close>

record order_request =
  intent :: string
  reference_id :: "string option"
  amount_currency_code :: "string option"
  amount_value :: "string option"
  unit_description :: "string option"
  soft_descriptor :: string
  return_url :: string
  cancel_url :: string
  brand_name :: string
  shipping_preference :: string
  user_action :: string

text \<open>What the processor answers: the order id and its links, each a relation and an address.\<close>

record order_result =
  result_id :: string
  links :: "(string \<times> string) list"

datatype error_code = unauthenticated | invalid_argument | internal

datatype https_error = HttpsError error_code string

record order_reply =
  redirectUrl :: string
  orderId :: string

text \<open>
  The processor is outside the repository: \<open>execute\<close> stands for \<open>client.execute\<close>,
  which answers with an order or raises. The result of the callable function lists the
  requests that were sent to the processor and what the caller receives.
\<close>

record intake_result =
  processor_calls :: "order_request list"
  outcome :: "https_error + order_reply"

definition build_request :: "tier property \<Rightarrow> string \<Rightarrow> string option \<Rightarrow> order_request" where
  "build_request selectedTier tierId uid =
     \<lparr>intent = ''CAPTURE'',
      reference_id = uid,
      amount_currency_code = (case selectedTier of Own t \<Rightarrow> Some (currency_code t) | _ \<Rightarrow> None),
      amount_value = (case selectedTier of Own t \<Rightarrow> Some (price_value t) | _ \<Rightarrow> None),
      unit_description = (case selectedTier of Own t \<Rightarrow> Some (description t) | _ \<Rightarrow> None),
      soft_descriptor = ''Membership:'' @ tierId,
      return_url = ''https://guided-botswana.web.app/payment-success?userId=''
                     @ interpolate uid @ ''&tier='' @ tierId,
      cancel_url = ''https://guided-botswana.web.app/payment-cancel?userId='' @ interpolate uid,
      brand_name = ''Explore Botswana'',
      shipping_preference = ''NO_SHIPPING'',
      user_action = ''PAY_NOW''\<rparr>"

definition createPayPalOrder ::
  "(order_request \<Rightarrow> string + order_result) \<Rightarrow> callable_request \<Rightarrow> intake_result" where
  "createPayPalOrder execute request =
     (if \<not> truthy (auth_uid request) then
        \<lparr>processor_calls = [],
         outcome = Inl (HttpsError unauthenticated
                          ''User must be authenticated to create an order.'')\<rparr>
      else
        (case present (selectedTierId request) of
           None \<Rightarrow>
             \<lparr>processor_calls = [],
              outcome = Inl (HttpsError invalid_argument ''Payment tier is required.'')\<rparr>
         | Some tierId \<Rightarrow>
             (let selectedTier = get_property paymentTiers tierId
              in if selectedTier = Undefined then
                   \<lparr>processor_calls = [],
                    outcome = Inl (HttpsError invalid_argument
                                     ''Invalid payment tier selected.'')\<rparr>
                 else
                   (let payPalRequest = build_request selectedTier tierId (userId request)
                    in \<lparr>processor_calls = [payPalRequest],
                        outcome =
                          (case execute payPalRequest of
                             Inl message \<Rightarrow>
                               Inl (HttpsError internal ''Failed to create PayPal order.'')
                           | Inr order \<Rightarrow>
                               (case map_of (links order) ''approve'' of
                                  None \<Rightarrow>
                                    Inl (HttpsError internal ''Failed to create PayPal order.'')
                                | Some href \<Rightarrow>
                                    Inr \<lparr>redirectUrl = href,
                                         orderId = result_id order\<rparr>))\<rparr>))))"

section \<open>The document store and its environment\<close>

text \<open>
  Times are milliseconds since the epoch. A document is a record whose fields may be
  missing. The collections are \<open>users\<close>, \<open>salespersons\<close> (enumerated by the monthly
  job, hence a list of identifier and document; lookup is \<open>map_of\<close>), the
  \<open>individualSales\<close> under a salesperson and a month (documents with generated
  identifiers: a list that grows at its end), and the \<open>historicalPayouts\<close> under a
  salesperson, one document per month. The reporting functions read two more places
  that nothing in the repository writes: the maps \<open>monthlyCommission\<close> and
  \<open>yearlyCommission\<close> of a salesperson document, and the \<open>sales\<close> under a
  salesperson.
\<close>

type_synonym timestamp = int

record salesperson_ref =
  ref_fullName :: "string option"

record user_doc =
  paymentStatus :: "string option"
  membershipExpiry :: "timestamp option"
  lastPaymentDate :: "timestamp option"
  paypalOrderId :: "string option"
  paypalPayerEmail :: "string option"
  paypalGrossAmount :: "number option"
  paypalCurrencyCode :: "string option"
  salesperson :: "salesperson_ref option"

record salesperson_doc =
  firstName :: "string option"
  lastName :: "string option"
  fullName :: "string option"
  currentMonthEarnings :: "number option"
  totalSales :: "number option"
  lastUpdated :: "timestamp option"
  monthlyCommission :: "(string \<times> number) list option"
  yearlyCommission :: "(string \<times> number) list option"

record sale_doc =
  sale_userId :: string
  sale_orderId :: "string option"
  sale_amount :: number
  sale_commission :: number
  sale_timestamp :: timestamp

record sales_entry =
  saleMonth :: "string option"
  saleYear :: "string option"
  sale_data :: sale_doc

record payout_doc =
  month :: string
  earnings :: number
  totalCustomers :: number
  archivedAt :: timestamp

record store =
  users :: "string \<rightharpoonup> user_doc"
  salespersons :: "(string \<times> salesperson_doc) list"
  individualSales :: "string \<times> string \<Rightarrow> sale_doc list"
  historicalPayouts :: "string \<times> string \<rightharpoonup> payout_doc"
  sales :: "string \<Rightarrow> sales_entry list"

text \<open>
  The store is outside the repository, and each call to it may raise. Two rules of its
  client decide this from the call itself and are part of the model, with the
  transaction below: a transaction refuses a read once it has buffered a write, and a
  write is refused when a value in its data is \<open>undefined\<close>. Every other cause (a
  path it rejects, contention, the network) is decided by the environment: \<open>fault\<close>
  names the call that raises in this run for such a cause, if any; a run ends at its
  first exception, so one name is enough. The environment also holds the clock:
  \<open>now\<close> is \<open>Date.now()\<close>, \<open>currentMonth\<close> the first seven characters of
  \<open>new Date().toISOString()\<close>, and \<open>server_time\<close> the value the store puts in
  place of \<open>FieldValue.serverTimestamp()\<close>.
\<close>

datatype store_call =
    DocUser | GetUser | UpdateUser | DocSalesperson | GetSalesperson | WriteSalesperson
  | SetSale | Commit | GetSalespersons | BatchSet | BatchUpdate | BatchCommit
  | GetReportSalesperson | QuerySales

record env =
  now :: int
  server_time :: timestamp
  currentMonth :: string
  fault :: "store_call option"

datatype log_entry = Info string | Warn string | Error string

section \<open>Payment reconciliation: paypalWebhookHandler\<close>

subsection \<open>The notification\<close>

record amount =
  amt_value :: "string option"
  amt_currency_code :: "string option"

record purchase_unit =
  pu_reference_id :: "string option"
  pu_custom_id :: "string option"
  pu_amount :: "amount option"

record payer =
  email_address :: "string option"

record resource =
  resource_id :: "string option"
  purchase_units :: "purchase_unit list option"
  resource_payer :: "payer option"
  resource_status :: "string option"

text \<open>The request: its method and the two fields of its parsed body that are read.\<close>

record http_request =
  req_method :: string
  event_type :: "string option"
  req_resource :: "resource option"

text \<open>\<open>purchase_units?.[0]\<close>\<close>

fun first_unit :: "purchase_unit list option \<Rightarrow> purchase_unit option" where
  "first_unit None = None"
| "first_unit (Some []) = None"
| "first_unit (Some (u # us)) = Some u"

text \<open>What the handler reads from the resource of a payment event.\<close>

record payment =
  paid_orderId :: "string option"
  paid_userId :: "string option"
  paid_payerEmail :: "string option"
  paid_grossAmount :: number
  paid_currencyCode :: "string option"
  paid_status :: "string option"

definition read_payment :: "resource \<Rightarrow> payment" where
  "read_payment r =
     (let unit0 = first_unit (purchase_units r)
      in \<lparr>paid_orderId = resource_id r,
          paid_userId =
            or_else (Option.bind unit0 pu_reference_id) (Option.bind unit0 pu_custom_id),
          paid_payerEmail = Option.bind (resource_payer r) email_address,
          paid_grossAmount =
            parseFloat
              (case present (Option.bind (Option.bind unit0 pu_amount) amt_value) of
                 None \<Rightarrow> ''0''
               | Some v \<Rightarrow> v),
          paid_currencyCode = Option.bind (Option.bind unit0 pu_amount) amt_currency_code,
          paid_status = resource_status r\<rparr>)"

text \<open>\<open>s.split(' ')\<close>, and \<open>xs[i]\<close> where an index out of range gives \<open>undefined\<close>.\<close>

fun split_space :: "string \<Rightarrow> string list" where
  "split_space [] = [[]]"
| "split_space (c # cs) =
     (if c = CHR '' '' then [] # split_space cs
      else (case split_space cs of
              [] \<Rightarrow> [[c]]
            | w # ws \<Rightarrow> (c # w) # ws))"

fun element :: "'a list \<Rightarrow> nat \<Rightarrow> 'a option" where
  "element [] i = None"
| "element (x # xs) 0 = Some x"
| "element (x # xs) (Suc i) = element xs i"

subsection \<open>The writes of a transaction\<close>

text \<open>
  A transaction buffers its writes; they reach the store together when the callback has
  returned and the commit succeeds. An \<open>update\<close> changes the named fields of a
  document that is there (the callback has read it), a \<open>set\<close> replaces or creates the
  document. \<open>FieldValue.increment\<close> adds to a numeric field and sets a missing one to
  the operand (the store adds whole numbers as integers; up to \<open>2 ^ 53\<close> that is the
  sum of the doubles).
\<close>

datatype tx_write =
    update_user string timestamp "string option" "string option" number "string option"
  | update_salesperson string number
  | set_salesperson string "string option" "string option" number
  | set_individualSale string string string "string option" number number

fun increment :: "number option \<Rightarrow> number \<Rightarrow> number" where
  "increment None n = n"
| "increment (Some x) n = num_plus x n"

fun apply_write :: "env \<Rightarrow> tx_write \<Rightarrow> store \<Rightarrow> store" where
  "apply_write e (update_user uid newExpiryDate oid payerEmail grossAmount currencyCode) s =
     s\<lparr>users := (users s)(uid :=
          map_option (\<lambda>u. u\<lparr>paymentStatus := Some ''paid'',
                            membershipExpiry := Some newExpiryDate,
                            lastPaymentDate := Some (server_time e),
                            paypalOrderId := oid,
                            paypalPayerEmail := payerEmail,
                            paypalGrossAmount := Some grossAmount,
                            paypalCurrencyCode := currencyCode\<rparr>) (users s uid))\<rparr>"
| "apply_write e (update_salesperson name commissionEarned) s =
     s\<lparr>salespersons :=
          AList.map_entry name
            (\<lambda>d. d\<lparr>currentMonthEarnings :=
                       Some (increment (currentMonthEarnings d) commissionEarned),
                     totalSales := Some (increment (totalSales d) (Num 1)),
                     lastUpdated := Some (server_time e)\<rparr>)
            (salespersons s)\<rparr>"
| "apply_write e (set_salesperson name first second commissionEarned) s =
     s\<lparr>salespersons :=
          AList.update name
            \<lparr>firstName = first, lastName = second, fullName = Some name,
             currentMonthEarnings = Some commissionEarned, totalSales = Some (Num 1),
             lastUpdated = Some (server_time e),
             monthlyCommission = None, yearlyCommission = None\<rparr>
            (salespersons s)\<rparr>"
| "apply_write e (set_individualSale name m uid oid grossAmount commissionEarned) s =
     s\<lparr>individualSales := (individualSales s)((name, m) :=
          individualSales s (name, m) @
            [\<lparr>sale_userId = uid, sale_orderId = oid, sale_amount = grossAmount,
              sale_commission = commissionEarned, sale_timestamp = server_time e\<rparr>])\<rparr>"

fun commit :: "env \<Rightarrow> tx_write list \<Rightarrow> store \<Rightarrow> store" where
  "commit e [] s = s"
| "commit e (w # ws) s = commit e ws (apply_write e w s)"

subsection \<open>The transaction callback\<close>

text \<open>
  A run of the callback: what it logged, the writes it had buffered when it ended, and
  whether it ended by an exception.
\<close>

record tx_run =
  tx_logs :: "log_entry list"
  tx_writes :: "tx_write list"
  tx_raised :: bool

text \<open>The literal \<open>0.20\<close> is the double nearest to it.\<close>

definition commissionRate :: number where
  "commissionRate = double 0.20"

text \<open>
  The part of the callback under the comment \<open>Update salesperson's commission\<close>.
  \<open>buffered\<close> are the writes the transaction holds when this part begins; its first
  call on the transaction is a read, which is refused when there are any.
\<close>

definition credit_salesperson ::
  "env \<Rightarrow> string \<Rightarrow> string \<Rightarrow> payment \<Rightarrow> tx_write list \<Rightarrow> store \<Rightarrow> tx_run" where
  "credit_salesperson e salespersonFullName uid p buffered s =
     (let commissionEarned = num_times (paid_grossAmount p) commissionRate
      in if fault e = Some DocSalesperson then
           \<lparr>tx_logs = [], tx_writes = buffered, tx_raised = True\<rparr>
         else if buffered \<noteq> [] \<or> fault e = Some GetSalesperson then
           \<lparr>tx_logs = [], tx_writes = buffered, tx_raised = True\<rparr>
         else
           (let exists = (map_of (salespersons s) salespersonFullName \<noteq> None);
                w2 = (if exists then update_salesperson salespersonFullName commissionEarned
                      else set_salesperson salespersonFullName
                             (Option.bind (element (split_space salespersonFullName) 0)
                                (\<lambda>w. present (Some w)))
                             (Option.bind (element (split_space salespersonFullName) 1)
                                (\<lambda>w. present (Some w)))
                             commissionEarned);
                l2 = (if exists then
                        Info (''Salesperson '' @ salespersonFullName
                              @ '' earnings updated: +${commissionEarned}.'')
                      else
                        Warn (''Salesperson document missing for '' @ salespersonFullName
                              @ ''. Creating new record.''))
            in if fault e = Some WriteSalesperson then
                 \<lparr>tx_logs = (if exists then [] else [l2]), tx_writes = buffered,
                  tx_raised = True\<rparr>
               else if paid_orderId p = None \<or> fault e = Some SetSale then
                 \<lparr>tx_logs = [l2], tx_writes = buffered @ [w2], tx_raised = True\<rparr>
               else
                 \<lparr>tx_logs = [l2],
                  tx_writes = buffered @ [w2,
                    set_individualSale salespersonFullName (currentMonth e) uid
                      (paid_orderId p) (paid_grossAmount p) commissionEarned],
                  tx_raised = False\<rparr>))"

text \<open>
  The callback. Its update of the user gives the order id, the payer's email and the
  currency code as they were read from the notification; the update is refused when one
  of them is \<open>undefined\<close>.
\<close>

definition reconcile :: "env \<Rightarrow> string \<Rightarrow> payment \<Rightarrow> store \<Rightarrow> tx_run" where
  "reconcile e uid p s =
     (if fault e = Some GetUser then \<lparr>tx_logs = [], tx_writes = [], tx_raised = True\<rparr>
      else
        (case users s uid of
           None \<Rightarrow>
             \<lparr>tx_logs = [Warn (''User document not found for webhook customId: '' @ uid @ ''.'')],
              tx_writes = [], tx_raised = False\<rparr>
         | Some userData \<Rightarrow>
             (let salespersonFullName = Option.bind (salesperson userData) ref_fullName;
                  newExpiryDate = now e + 14 * 24 * 60 * 60 * 1000;
                  w1 = update_user uid newExpiryDate (paid_orderId p) (paid_payerEmail p)
                         (paid_grossAmount p) (paid_currencyCode p)
              in if paid_orderId p = None \<or> paid_payerEmail p = None
                    \<or> paid_currencyCode p = None \<or> fault e = Some UpdateUser then
                   \<lparr>tx_logs = [], tx_writes = [], tx_raised = True\<rparr>
                 else
                   (case present salespersonFullName of
                      None \<Rightarrow>
                        \<lparr>tx_logs = [Info (''User '' @ uid @ '' has no associated salesperson.'')],
                         tx_writes = [w1], tx_raised = False\<rparr>
                    | Some name \<Rightarrow> credit_salesperson e name uid p [w1] s))))"

text \<open>
  \<open>db.runTransaction\<close>: the callback runs against the store as it is; an exception in
  it, or a failed commit, leaves the store as it was and is raised to the caller.
\<close>

record run =
  raised :: bool
  store_after :: store
  logs :: "log_entry list"

definition runTransaction :: "env \<Rightarrow> (store \<Rightarrow> tx_run) \<Rightarrow> store \<Rightarrow> run" where
  "runTransaction e callback s =
     (let r = callback s
      in if tx_raised r \<or> fault e = Some Commit then
           \<lparr>raised = True, store_after = s, logs = tx_logs r\<rparr>
         else
           \<lparr>raised = False, store_after = commit e (tx_writes r) s, logs = tx_logs r\<rparr>)"

subsection \<open>The handler\<close>

text \<open>The three event types of a completed or approved payment share one branch.\<close>

definition on_payment :: "env \<Rightarrow> resource option \<Rightarrow> store \<Rightarrow> run" where
  "on_payment e res s =
     (case res of
        None \<Rightarrow> \<lparr>raised = True, store_after = s, logs = []\<rparr>
      | Some r \<Rightarrow>
          (let p = read_payment r;
               l1 = Info (''Payment '' @ interpolate (paid_status p)
                          @ '' via webhook for Order ID: '' @ interpolate (paid_orderId p)
                          @ '', User ID: '' @ interpolate (paid_userId p))
           in case present (paid_userId p) of
                None \<Rightarrow> \<lparr>raised = False, store_after = s, logs = [l1]\<rparr>
              | Some uid \<Rightarrow>
                  if paid_status p = Some ''COMPLETED'' \<or> paid_status p = Some ''APPROVED'' then
                    (if fault e = Some DocUser then
                       \<lparr>raised = True, store_after = s, logs = [l1]\<rparr>
                     else
                       (let t = runTransaction e (reconcile e uid p) s
                        in t\<lparr>logs := l1 # logs t\<rparr>))
                  else \<lparr>raised = False, store_after = s, logs = [l1]\<rparr>))"

definition dispatch :: "env \<Rightarrow> string option \<Rightarrow> resource option \<Rightarrow> store \<Rightarrow> run" where
  "dispatch e eventType res s =
     (if eventType = Some ''CHECKOUT.ORDER.COMPLETED''
         \<or> eventType = Some ''CHECKOUT.ORDER.APPROVED''
         \<or> eventType = Some ''PAYMENT.CAPTURE.COMPLETED'' then on_payment e res s
      else if eventType = Some ''PAYMENT.CAPTURE.DENIED'' then
        (case res of
           None \<Rightarrow> \<lparr>raised = True, store_after = s, logs = []\<rparr>
         | Some r \<Rightarrow>
             \<lparr>raised = False, store_after = s, logs = [Warn ''Payment Capture Denied:'']\<rparr>)
      else if eventType = Some ''BILLING.SUBSCRIPTION.CANCELLED''
              \<or> eventType = Some ''BILLING.SUBSCRIPTION.EXPIRED'' then
        (case res of
           None \<Rightarrow> \<lparr>raised = True, store_after = s, logs = []\<rparr>
         | Some r \<Rightarrow>
             \<lparr>raised = False, store_after = s,
              logs = [Info (''Subscription '' @ interpolate (resource_id r) @ '' ''
                            @ interpolate eventType @ ''.'')]\<rparr>)
      else
        \<lparr>raised = False, store_after = s,
         logs = [Info (''Unhandled webhook event type: '' @ interpolate eventType @ ''.'')]\<rparr>)"

record http_response =
  status :: nat
  body :: string

record handled =
  response :: http_response
  final_store :: store
  handler_logs :: "log_entry list"

definition paypalWebhookHandler :: "env \<Rightarrow> http_request \<Rightarrow> store \<Rightarrow> handled" where
  "paypalWebhookHandler e req s =
     (let l0 = Info ''paypalWebhookHandler: Webhook received.''
      in if req_method req \<noteq> ''POST'' then
           \<lparr>response = \<lparr>status = 405, body = ''Method Not Allowed''\<rparr>,
            final_store = s, handler_logs = [l0]\<rparr>
         else
           (let r = dispatch e (event_type req) (req_resource req) s
            in if raised r then
                 \<lparr>response = \<lparr>status = 500,
                              body = ''Internal Server Error processing webhook.''\<rparr>,
                  final_store = store_after r,
                  handler_logs = l0 # logs r @ [Error ''Error processing PayPal webhook:'']\<rparr>
               else
                 \<lparr>response = \<lparr>status = 200, body = ''Webhook processed.''\<rparr>,
                  final_store = store_after r,
                  handler_logs = l0 # logs r\<rparr>))"

section \<open>Monthly rollover: resetMonthlyEarnings\<close>

text \<open>
  The job reads every salesperson document, puts its writes into one batch and commits
  the batch. A write to \<open>historicalPayouts\<close> is a \<open>set\<close> with \<open>merge\<close>; it gives
  all four fields, so the fields of a document that is already there are replaced.
\<close>

datatype batch_write =
    set_historicalPayout string string number number
  | reset_salesperson string

text \<open>The body of \<open>snapshot.forEach\<close> for one document: the writes it adds to the batch.\<close>

definition archived :: "salesperson_doc \<Rightarrow> bool" where
  "archived d =
     (positive (or_zero (currentMonthEarnings d)) \<or> positive (or_zero (totalSales d)))"

definition rollover_doc :: "env \<Rightarrow> string \<times> salesperson_doc \<Rightarrow> batch_write list" where
  "rollover_doc e doc =
     (if archived (snd doc)
      then [set_historicalPayout (fst doc) (currentMonth e)
              (or_zero (currentMonthEarnings (snd doc))) (or_zero (totalSales (snd doc)))]
      else [])
     @ [reset_salesperson (fst doc)]"

text \<open>The loop; \<open>None\<close> when a call on the batch raised.\<close>

fun build_batch :: "env \<Rightarrow> (string \<times> salesperson_doc) list \<Rightarrow> batch_write list option" where
  "build_batch e [] = Some []"
| "build_batch e (doc # docs) =
     (if (archived (snd doc) \<and> fault e = Some BatchSet) \<or> fault e = Some BatchUpdate
      then None
      else map_option (\<lambda>ws. rollover_doc e doc @ ws) (build_batch e docs))"

fun apply_batch_write :: "env \<Rightarrow> batch_write \<Rightarrow> store \<Rightarrow> store" where
  "apply_batch_write e (set_historicalPayout sp m earned sold) s =
     s\<lparr>historicalPayouts := (historicalPayouts s)((sp, m) \<mapsto>
          \<lparr>month = m, earnings = earned, totalCustomers = sold,
           archivedAt = server_time e\<rparr>)\<rparr>"
| "apply_batch_write e (reset_salesperson sp) s =
     s\<lparr>salespersons :=
          AList.map_entry sp
            (\<lambda>d. d\<lparr>currentMonthEarnings := Some (Num 0), totalSales := Some (Num 0)\<rparr>)
            (salespersons s)\<rparr>"

fun commit_batch :: "env \<Rightarrow> batch_write list \<Rightarrow> store \<Rightarrow> store" where
  "commit_batch e [] s = s"
| "commit_batch e (w # ws) s = commit_batch e ws (apply_batch_write e w s)"

text \<open>The job; \<open>None\<close> when it raised, and then the store is as it was.\<close>

definition resetMonthlyEarnings :: "env \<Rightarrow> store \<Rightarrow> store option" where
  "resetMonthlyEarnings e s =
     (if fault e = Some GetSalespersons then None
      else
        (case build_batch e (salespersons s) of
           None \<Rightarrow> None
         | Some batch \<Rightarrow>
             if fault e = Some BatchCommit then None else Some (commit_batch e batch s)))"

section \<open>Reporting: getMonthlySalesReport and getYearlySalesReport\<close>

text \<open>
  The commission of a period is read from a map stored in the salesperson document,
  by \<open>map?.[key] || 0\<close>: a key the map holds gives its number, a key that only
  \<open>Object.prototype\<close> knows gives the inherited function.
\<close>

datatype js_value = Number number | Function_value

fun commission_or_zero :: "(string \<times> number) list option \<Rightarrow> string \<Rightarrow> js_value" where
  "commission_or_zero None k = Number (Num 0)"
| "commission_or_zero (Some m) k =
     (case get_property m k of
        Own n \<Rightarrow> Number (or_zero (Some n))
      | Inherited \<Rightarrow> Function_value
      | Undefined \<Rightarrow> Number (Num 0))"

record report_request =
  authenticated :: bool
  salespersonId :: "string option"
  yearMonth :: "string option"
  year :: "string option"

record report =
  totalCommission :: js_value
  report_sales :: "sales_entry list"
  message :: "string option"

definition getMonthlySalesReport :: "env \<Rightarrow> report_request \<Rightarrow> store \<Rightarrow> https_error + report" where
  "getMonthlySalesReport e request s =
     (if \<not> authenticated request then
        Inl (HttpsError unauthenticated ''Authentication required.'')
      else
        (case (present (salespersonId request), present (yearMonth request)) of
           (Some sp, Some ym) \<Rightarrow>
             if fault e = Some GetReportSalesperson then
               Inl (HttpsError internal ''Failed to retrieve monthly sales report.'')
             else
               (case map_of (salespersons s) sp of
                  None \<Rightarrow>
                    Inr \<lparr>totalCommission = Number (Num 0), report_sales = [],
                         message = Some ''Salesperson not found or no sales data.''\<rparr>
                | Some salespersonData \<Rightarrow>
                    if fault e = Some QuerySales then
                      Inl (HttpsError internal ''Failed to retrieve monthly sales report.'')
                    else
                      Inr \<lparr>totalCommission =
                             commission_or_zero (monthlyCommission salespersonData) ym,
                           report_sales = filter (\<lambda>x. saleMonth x = Some ym) (sales s sp),
                           message = None\<rparr>)
         | _ \<Rightarrow>
             Inl (HttpsError invalid_argument
                    ''Salesperson ID and year/month are required.'')))"

definition getYearlySalesReport :: "env \<Rightarrow> report_request \<Rightarrow> store \<Rightarrow> https_error + report" where
  "getYearlySalesReport e request s =
     (if \<not> authenticated request then
        Inl (HttpsError unauthenticated ''Authentication required.'')
      else
        (case (present (salespersonId request), present (year request)) of
           (Some sp, Some y) \<Rightarrow>
             if fault e = Some GetReportSalesperson then
               Inl (HttpsError internal ''Failed to retrieve yearly sales report.'')
             else
               (case map_of (salespersons s) sp of
                  None \<Rightarrow>
                    Inr \<lparr>totalCommission = Number (Num 0), report_sales = [],
                         message = Some ''Salesperson not found or no sales data.''\<rparr>
                | Some salespersonData \<Rightarrow>
                    if fault e = Some QuerySales then
                      Inl (HttpsError internal ''Failed to retrieve yearly sales report.'')
                    else
                      Inr \<lparr>totalCommission =
                             commission_or_zero (yearlyCommission salespersonData) y,
                           report_sales = filter (\<lambda>x. saleYear x = Some y) (sales s sp),
                           message = None\<rparr>)
         | _ \<Rightarrow>
             Inl (HttpsError invalid_argument ''Salesperson ID and year are required.'')))"

section \<open>Notions used in the statements\<close>

text \<open>
  A notification that reaches the transaction: a \<open>POST\<close> whose event type is one of
  the three of a completed or approved payment, with a resource that names a user and
  has the status \<open>COMPLETED\<close> or \<open>APPROVED\<close>.
\<close>

definition completed_payment :: "http_request \<Rightarrow> resource \<Rightarrow> string \<Rightarrow> bool" where
  "completed_payment req r uid \<longleftrightarrow>
     req_method req = ''POST''
     \<and> (event_type req = Some ''CHECKOUT.ORDER.COMPLETED''
        \<or> event_type req = Some ''CHECKOUT.ORDER.APPROVED''
        \<or> event_type req = Some ''PAYMENT.CAPTURE.COMPLETED'')
     \<and> req_resource req = Some r
     \<and> present (paid_userId (read_payment r)) = Some uid
     \<and> (paid_status (read_payment r) = Some ''COMPLETED''
        \<or> paid_status (read_payment r) = Some ''APPROVED'')"

subsection \<open>Sample data\<close>

text \<open>
  Two clock readings in November 2023; a notification of a payment of 100.00 USD by
  user \<open>u1\<close>, the same without the amount value, and without the amount; a user record
  that names the salesperson Ann Lee and is not paid, and one without a salesperson
  whose membership has not yet expired; stores to run them against.
\<close>

definition sample_env :: env where
  "sample_env = \<lparr>now = 1700000000000, server_time = 1700000000250,
                  currentMonth = ''2023-11'', fault = None\<rparr>"

definition later_env :: env where
  "later_env = \<lparr>now = 1700000060000, server_time = 1700000060250,
                 currentMonth = ''2023-11'', fault = None\<rparr>"

definition sample_resource :: resource where
  "sample_resource =
     \<lparr>resource_id = Some ''5O190127TN364715T'',
      purchase_units = Some
        [\<lparr>pu_reference_id = Some ''u1'', pu_custom_id = None,
          pu_amount = Some \<lparr>amt_value = Some ''100.00'', amt_currency_code = Some ''USD''\<rparr>\<rparr>],
      resource_payer = Some \<lparr>email_address = Some ''payer@example.com''\<rparr>,
      resource_status = Some ''COMPLETED''\<rparr>"

definition sample_request :: http_request where
  "sample_request =
     \<lparr>req_method = ''POST'', event_type = Some ''CHECKOUT.ORDER.APPROVED'',
      req_resource = Some sample_resource\<rparr>"

definition unpriced_resource :: resource where
  "unpriced_resource =
     sample_resource\<lparr>purchase_units := Some
       [\<lparr>pu_reference_id = Some ''u1'', pu_custom_id = None,
         pu_amount = Some \<lparr>amt_value = None, amt_currency_code = Some ''USD''\<rparr>\<rparr>]\<rparr>"

definition unpriced_request :: http_request where
  "unpriced_request = sample_request\<lparr>req_resource := Some unpriced_resource\<rparr>"

definition amountless_resource :: resource where
  "amountless_resource =
     sample_resource\<lparr>purchase_units := Some
       [\<lparr>pu_reference_id = Some ''u1'', pu_custom_id = None, pu_amount = None\<rparr>]\<rparr>"

definition amountless_request :: http_request where
  "amountless_request = sample_request\<lparr>req_resource := Some amountless_resource\<rparr>"

definition sample_user :: user_doc where
  "sample_user =
     \<lparr>paymentStatus = Some ''pending'', membershipExpiry = None,
      lastPaymentDate = None, paypalOrderId = None,
      paypalPayerEmail = None, paypalGrossAmount = None,
      paypalCurrencyCode = None,
      salesperson = Some \<lparr>ref_fullName = Some ''Ann Lee''\<rparr>\<rparr>"

definition solo_user :: user_doc where
  "solo_user =
     \<lparr>paymentStatus = Some ''paid'', membershipExpiry = Some 1700600000000,
      lastPaymentDate = Some 1699390400000, paypalOrderId = Some ''4X'',
      paypalPayerEmail = Some ''payer@example.com'', paypalGrossAmount = Some (Num 50),
      paypalCurrencyCode = Some ''USD'', salesperson = None\<rparr>"

definition sample_salesperson :: salesperson_doc where
  "sample_salesperson =
     \<lparr>firstName = Some ''Ann'', lastName = Some ''Lee'', fullName = Some ''Ann Lee'',
      currentMonthEarnings = Some (Num 30), totalSales = Some (Num 2),
      lastUpdated = Some 1699390400000, monthlyCommission = None, yearlyCommission = None\<rparr>"

definition sample_store :: store where
  "sample_store =
     \<lparr>users = [''u1'' \<mapsto> sample_user],
      salespersons = [(''Ann Lee'', sample_salesperson)],
      individualSales = (\<lambda>k. []),
      historicalPayouts = Map.empty,
      sales = (\<lambda>k. [])\<rparr>"

definition solo_store :: store where
  "solo_store =
     \<lparr>users = [''u1'' \<mapsto> solo_user],
      salespersons = [(''Ann Lee'', sample_salesperson)],
      individualSales = (\<lambda>k. []),
      historicalPayouts = Map.empty,
      sales = (\<lambda>k. [])\<rparr>"

definition empty_store :: store where
  "empty_store =
     \<lparr>users = Map.empty, salespersons = [], individualSales = (\<lambda>k. []),
      historicalPayouts = Map.empty, sales = (\<lambda>k. [])\<rparr>"

definition idle_store :: store where
  "idle_store =
     \<lparr>users = Map.empty,
      salespersons =
        [(''Ann Lee'', sample_salesperson\<lparr>currentMonthEarnings := Some (Num 0),
                                           totalSales := Some (Num 1)\<rparr>)],
      individualSales = (\<lambda>k. []),
      historicalPayouts = Map.empty,
      sales = (\<lambda>k. [])\<rparr>"

definition mixed_store :: store where
  "mixed_store =
     \<lparr>users = Map.empty,
      salespersons =
        [(''Ann Lee'', sample_salesperson),
         (''Bo Moyo'', sample_salesperson\<lparr>currentMonthEarnings := Some (Num 0),
                                          totalSales := Some (Num 0)\<rparr>)],
      individualSales = (\<lambda>k. []),
      historicalPayouts = Map.empty,
      sales = (\<lambda>k. [])\<rparr>"

definition sample_report_request :: report_request where
  "sample_report_request =
     \<lparr>authenticated = True, salespersonId = Some ''Bo Moyo'',
      yearMonth = Some ''2023-11'', year = Some ''2023''\<rparr>"

section \<open>Order intake: the request sent to the processor\<close>

lemma paymentTiers_keys:
  "map_of paymentTiers tierId = Some t \<Longrightarrow> tierId \<noteq> [] \<and> get_property paymentTiers tierId = Own t"
  by (auto simp: get_property_def paymentTiers_def split: if_splits)

text \<open>
  C7. For an authenticated caller and a tier id of the price table, exactly one request
  goes to the processor, and its amount and currency are those of the tier's entry.
  The entry of tier \<open>sadc\<close> is the price \<open>100.00\<close> in \<open>USD\<close>.
\<close>

theorem createPayPalOrder_amount_matches_tier:
  assumes "truthy (auth_uid request)"
    and "selectedTierId request = Some tierId"
    and "map_of paymentTiers tierId = Some t"
  shows "\<exists>r. processor_calls (createPayPalOrder execute request) = [r]
           \<and> amount_value r = Some (price_value t)
           \<and> amount_currency_code r = Some (currency_code t)
           \<and> (tierId = ''sadc'' \<longrightarrow> price_value t = ''100.00'' \<and> currency_code t = ''USD'')"
proof -
  from assms(3) have k: "tierId \<noteq> []" "get_property paymentTiers tierId = Own t"
    using paymentTiers_keys by blast+
  have sadc: "tierId = ''sadc'' \<longrightarrow> price_value t = ''100.00'' \<and> currency_code t = ''USD''"
    using assms(3) by (auto simp: paymentTiers_def)
  have "processor_calls (createPayPalOrder execute request)
          = [build_request (Own t) tierId (userId request)]"
    using assms(1,2) k by (simp add: createPayPalOrder_def Let_def)
  moreover have "amount_value (build_request (Own t) tierId (userId request)) = Some (price_value t)"
    and "amount_currency_code (build_request (Own t) tierId (userId request))
           = Some (currency_code t)"
    by (simp_all add: build_request_def)
  ultimately show ?thesis using sadc by blast
qed

theorem createPayPalOrder_amount_matches_tier_witness:
  "truthy (auth_uid \<lparr>auth_uid = Some ''u1'', selectedTierId = Some ''sadc'', userId = Some ''u1''\<rparr>)
   \<and> map_of paymentTiers ''sadc''
       = Some \<lparr>currency_code = ''USD'', price_value = ''100.00'',
               description = ''SADC Citizens Membership''\<rparr>
   \<and> (\<exists>r. processor_calls
              (createPayPalOrder (\<lambda>q. Inl ''unreachable'')
                 \<lparr>auth_uid = Some ''u1'', selectedTierId = Some ''sadc'', userId = Some ''u1''\<rparr>)
            = [r]
          \<and> amount_value r = Some ''100.00'' \<and> amount_currency_code r = Some ''USD'')"
proof -
  have t: "map_of paymentTiers ''sadc''
             = Some \<lparr>currency_code = ''USD'', price_value = ''100.00'',
                     description = ''SADC Citizens Membership''\<rparr>"
    by (simp add: paymentTiers_def)
  show ?thesis
    using createPayPalOrder_amount_matches_tier
            [of "\<lparr>auth_uid = Some ''u1'', selectedTierId = Some ''sadc'', userId = Some ''u1''\<rparr>"
                "''sadc''" _ "\<lambda>q. Inl ''unreachable''", OF _ _ t] t
    by simp
qed

text \<open>
  A tier id that is neither in the price table nor a property of \<open>Object.prototype\<close>
  is refused with \<open>invalid-argument\<close> before anything is sent to the processor.
\<close>

lemma createPayPalOrder_unknown_tier:
  assumes "truthy (auth_uid request)"
    and "selectedTierId request = Some tierId"
    and "map_of paymentTiers tierId = None"
    and "tierId \<notin> set Object_prototype"
  shows "processor_calls (createPayPalOrder execute request) = []
         \<and> (\<exists>m. outcome (createPayPalOrder execute request) = Inl (HttpsError invalid_argument m))"
  using assms by (cases "tierId = []") (simp_all add: createPayPalOrder_def get_property_def)

text \<open>
  C8. The tier id \<open>constructor\<close> is not in the price table, yet
  \<open>paymentTiers[selectedTierId]\<close> finds the property that every object inherits, the
  test \<open>!selectedTier\<close> does not fire, and a request without amount and currency goes to
  the processor. When the processor refuses it the caller receives \<open>internal\<close>, not
  \<open>invalid-argument\<close>.
\<close>

theorem createPayPalOrder_inherited_tier_reaches_processor:
  "map_of paymentTiers ''constructor'' = None
   \<and> processor_calls
       (createPayPalOrder (\<lambda>q. Inl ''INVALID_REQUEST'')
          \<lparr>auth_uid = Some ''u1'', selectedTierId = Some ''constructor'', userId = Some ''u1''\<rparr>)
     = [build_request Inherited ''constructor'' (Some ''u1'')]
   \<and> amount_value (build_request Inherited ''constructor'' (Some ''u1'')) = None
   \<and> amount_currency_code (build_request Inherited ''constructor'' (Some ''u1'')) = None
   \<and> outcome
       (createPayPalOrder (\<lambda>q. Inl ''INVALID_REQUEST'')
          \<lparr>auth_uid = Some ''u1'', selectedTierId = Some ''constructor'', userId = Some ''u1''\<rparr>)
     = Inl (HttpsError internal ''Failed to create PayPal order.'')"
  by (simp add: createPayPalOrder_def get_property_def paymentTiers_def Object_prototype_def
        build_request_def)

section \<open>Payment reconciliation: what a delivery does to the store\<close>

lemma present_Some: "present x = Some y \<longleftrightarrow> x = Some y \<and> y \<noteq> []"
  by (cases x) auto

lemma double_zero: "double 0 = Num 0"
  by (simp add: double_def nearest_def round_even_def)

lemma handler_completed_payment:
  assumes "completed_payment req r uid"
  shows "final_store (paypalWebhookHandler e req s)
           = (if fault e = Some DocUser then s
              else store_after (runTransaction e (reconcile e uid (read_payment r)) s))"
    and "status (response (paypalWebhookHandler e req s))
           = (if fault e = Some DocUser \<or> raised (runTransaction e (reconcile e uid (read_payment r)) s)
              then 500 else 200)"
  using assms
  by (auto simp: completed_payment_def paypalWebhookHandler_def dispatch_def on_payment_def Let_def)


lemma callback_raises_for_linked_user:
  assumes "users s uid = Some u"
    and "present (Option.bind (salesperson u) ref_fullName) = Some sp"
  shows "tx_raised (reconcile e uid p s)"
  using assms by (simp add: reconcile_def credit_salesperson_def Let_def)


lemma linked_user_aborts:
  assumes "completed_payment req r uid"
    and "users s uid = Some u"
    and "present (Option.bind (salesperson u) ref_fullName) = Some sp"
  shows "status (response (paypalWebhookHandler e req s)) = 500"
    and "final_store (paypalWebhookHandler e req s) = s"
  using callback_raises_for_linked_user[OF assms(2,3)]
  by (simp_all add: handler_completed_payment[OF assms(1)] runTransaction_def)

lemma success_updates_user:
  assumes "completed_payment req r uid"
    and "users s uid = Some u"
    and "status (response (paypalWebhookHandler e req s)) = 200"
  shows "final_store (paypalWebhookHandler e req s) =
           s\<lparr>users := (users s)(uid \<mapsto>
                u\<lparr>paymentStatus := Some ''paid'',
                  membershipExpiry := Some (now e + 14 * 24 * 60 * 60 * 1000),
                  lastPaymentDate := Some (server_time e),
                  paypalOrderId := paid_orderId (read_payment r),
                  paypalPayerEmail := paid_payerEmail (read_payment r),
                  paypalGrossAmount := Some (paid_grossAmount (read_payment r)),
                  paypalCurrencyCode := paid_currencyCode (read_payment r)\<rparr>)\<rparr>"
  using assms(2,3)
  by (auto simp: handler_completed_payment[OF assms(1)] runTransaction_def reconcile_def
        credit_salesperson_def Let_def split: if_splits option.splits)

lemma solo_user_succeeds:
  assumes "completed_payment req r uid"
    and "users s uid = Some u"
    and "present (Option.bind (salesperson u) ref_fullName) = None"
    and "paid_orderId (read_payment r) \<noteq> None"
    and "paid_payerEmail (read_payment r) \<noteq> None"
    and "paid_currencyCode (read_payment r) \<noteq> None"
    and "fault e = None"
  shows "status (response (paypalWebhookHandler e req s)) = 200"
  using assms(2-7)
  by (simp add: handler_completed_payment[OF assms(1)] runTransaction_def reconcile_def Let_def)

lemma missing_value_reads_zero:
  "present (Option.bind (Option.bind (first_unit (purchase_units r)) pu_amount) amt_value) = None
     \<Longrightarrow> paid_grossAmount (read_payment r) = Num 0"
  by (simp add: read_payment_def Let_def parseFloat_def is_digit_def is_space_def
        digits_value_def digit_value_def scale10_def double_zero)


subsection \<open>Facts about the sample data\<close>

lemma sample_completed: "completed_payment sample_request sample_resource ''u1''"
  by (simp add: completed_payment_def sample_request_def read_payment_def sample_resource_def
        or_else_def)

lemma unpriced_completed: "completed_payment unpriced_request unpriced_resource ''u1''"
  by (simp add: completed_payment_def unpriced_request_def sample_request_def
        unpriced_resource_def sample_resource_def read_payment_def or_else_def)

lemma amountless_completed: "completed_payment amountless_request amountless_resource ''u1''"
  by (simp add: completed_payment_def amountless_request_def sample_request_def
        amountless_resource_def sample_resource_def read_payment_def or_else_def)

lemma sample_fields:
  "paid_orderId (read_payment sample_resource) = Some ''5O190127TN364715T''"
  "paid_payerEmail (read_payment sample_resource) = Some ''payer@example.com''"
  "paid_currencyCode (read_payment sample_resource) = Some ''USD''"
  "paid_status (read_payment sample_resource) = Some ''COMPLETED''"
  by (simp_all add: read_payment_def sample_resource_def)

lemma sample_user_found: "users sample_store ''u1'' = Some sample_user"
  by (simp add: sample_store_def)

lemma sample_ref: "present (Option.bind (salesperson sample_user) ref_fullName) = Some ''Ann Lee''"
  by (simp add: sample_user_def)

lemma sample_salesperson_found: "map_of (salespersons sample_store) ''Ann Lee'' = Some sample_salesperson"
  by (simp add: sample_store_def)

lemma solo_user_found: "users solo_store ''u1'' = Some solo_user"
  by (simp add: solo_store_def)

lemma solo_ref: "present (Option.bind (salesperson solo_user) ref_fullName) = None"
  by (simp add: solo_user_def)

lemma solo_answer:
  "fault e = None \<Longrightarrow> users s ''u1'' = Some solo_user
     \<Longrightarrow> status (response (paypalWebhookHandler e sample_request s)) = 200"
  by (rule solo_user_succeeds[OF sample_completed _ solo_ref]) (simp_all add: sample_fields)

subsection \<open>Commission, sale count and sale record\<close>

text \<open>
  C1. For a completed-payment notification whose user exists and names a salesperson
  with commission \<open>C\<close>, the claim promises the commission \<open>C + A * r\<close>, one more sale
  and one new sale record. The callback buffers the update of the user and then reads the
  salesperson's document; the transaction refuses the read. So for every such
  notification, whatever else the store does, the handler answers 500 and the store is
  as it was: the commission is still \<open>C\<close> and there is no new sale record.
\<close>

theorem commission_not_credited:
  assumes "completed_payment req r uid"
    and "users s uid = Some u"
    and "present (Option.bind (salesperson u) ref_fullName) = Some sp"
    and "map_of (salespersons s) sp = Some d"
    and "currentMonthEarnings d = Some (Num C)"
  shows "status (response (paypalWebhookHandler e req s)) = 500
         \<and> final_store (paypalWebhookHandler e req s) = s
         \<and> Option.bind (map_of (salespersons (final_store (paypalWebhookHandler e req s))) sp)
              currentMonthEarnings = Some (Num C)
         \<and> individualSales (final_store (paypalWebhookHandler e req s)) = individualSales s"
  using assms(4,5) by (simp add: linked_user_aborts[OF assms(1,2,3)])

theorem commission_not_credited_witness:
  "completed_payment sample_request sample_resource ''u1''
   \<and> users sample_store ''u1'' = Some sample_user
   \<and> present (Option.bind (salesperson sample_user) ref_fullName) = Some ''Ann Lee''
   \<and> map_of (salespersons sample_store) ''Ann Lee'' = Some sample_salesperson
   \<and> currentMonthEarnings sample_salesperson = Some (Num 30)
   \<and> status (response (paypalWebhookHandler sample_env sample_request sample_store)) = 500
   \<and> final_store (paypalWebhookHandler sample_env sample_request sample_store) = sample_store
   \<and> Option.bind
        (map_of (salespersons
           (final_store (paypalWebhookHandler sample_env sample_request sample_store)))
           ''Ann Lee'')
        currentMonthEarnings = Some (Num 30)
   \<and> individualSales (final_store (paypalWebhookHandler sample_env sample_request sample_store))
        (''Ann Lee'', ''2023-11'') = []"
proof -
  have a: "currentMonthEarnings sample_salesperson = Some (Num 30)"
    by (simp add: sample_salesperson_def)
  have s: "individualSales sample_store (''Ann Lee'', ''2023-11'') = []"
    by (simp add: sample_store_def)
  show ?thesis
    using commission_not_credited[OF sample_completed sample_user_found sample_ref
            sample_salesperson_found a, of sample_env]
      sample_completed sample_user_found sample_ref sample_salesperson_found a s
    by simp
qed

subsection \<open>One atomic transaction\<close>



subsection \<open>Membership expiry\<close>

text \<open>
  C3. After a successfully reconciled payment (the handler answers 200 for an existing
  user), the user's membership expiry is the current time plus 14 days, whatever the
  record held before.
\<close>

theorem expiry_fixed_window:
  assumes "completed_payment req r uid"
    and "users s uid = Some u"
    and "status (response (paypalWebhookHandler e req s)) = 200"
  shows "\<exists>u'. users (final_store (paypalWebhookHandler e req s)) uid = Some u'
           \<and> membershipExpiry u' = Some (now e + 14 * 24 * 60 * 60 * 1000)"
  using assms(2,3)
  by (auto simp: handler_completed_payment[OF assms(1)] runTransaction_def reconcile_def
        credit_salesperson_def Let_def split: if_splits option.splits)

text \<open>
  The membership of the sample user without a salesperson had not expired (it ran until
  1700600000000, after the clock's 1700000000000); the new expiry is counted from the
  clock, not from there.
\<close>

theorem expiry_fixed_window_witness:
  "completed_payment sample_request sample_resource ''u1''
   \<and> users solo_store ''u1'' = Some solo_user
   \<and> membershipExpiry solo_user = Some 1700600000000
   \<and> status (response (paypalWebhookHandler sample_env sample_request solo_store)) = 200
   \<and> (\<exists>u'. users (final_store (paypalWebhookHandler sample_env sample_request solo_store)) ''u1''
              = Some u'
          \<and> membershipExpiry u' = Some (1700000000000 + 14 * 24 * 60 * 60 * 1000))"
proof -
  have f: "fault sample_env = None" by (simp add: sample_env_def)
  have ok: "status (response (paypalWebhookHandler sample_env sample_request solo_store)) = 200"
    by (rule solo_answer[OF f solo_user_found])
  have e: "now sample_env = 1700000000000" by (simp add: sample_env_def)
  have m: "membershipExpiry solo_user = Some 1700600000000" by (simp add: solo_user_def)
  show ?thesis
    using expiry_fixed_window[OF sample_completed solo_user_found ok]
      sample_completed solo_user_found ok m
    by (simp add: e)
qed

subsection \<open>A user that is not in the store\<close>

text \<open>
  C4. A completed-payment notification whose user has no record leaves the store as it is,
  whatever raises; and when no call to the store raises, the handler answers 200 and has
  only logged: the two informational lines and the warning that the user was not found.
\<close>

theorem absent_user_soft_noop:
  assumes "completed_payment req r uid"
    and "users s uid = None"
  shows "final_store (paypalWebhookHandler e req s) = s
         \<and> (fault e = None \<longrightarrow>
              status (response (paypalWebhookHandler e req s)) = 200
              \<and> handler_logs (paypalWebhookHandler e req s)
                  = [Info ''paypalWebhookHandler: Webhook received.'',
                     Info (''Payment '' @ interpolate (paid_status (read_payment r))
                           @ '' via webhook for Order ID: ''
                           @ interpolate (paid_orderId (read_payment r))
                           @ '', User ID: '' @ uid),
                     Warn (''User document not found for webhook customId: '' @ uid @ ''.'')])"
  using assms
  by (auto simp: completed_payment_def paypalWebhookHandler_def dispatch_def on_payment_def
        runTransaction_def reconcile_def Let_def present_Some split: option.splits if_splits)

theorem absent_user_soft_noop_witness:
  "completed_payment sample_request sample_resource ''u1''
   \<and> users empty_store ''u1'' = None
   \<and> fault sample_env = None
   \<and> final_store (paypalWebhookHandler sample_env sample_request empty_store) = empty_store
   \<and> status (response (paypalWebhookHandler sample_env sample_request empty_store)) = 200
   \<and> handler_logs (paypalWebhookHandler sample_env sample_request empty_store)
       = [Info ''paypalWebhookHandler: Webhook received.'',
          Info ''Payment COMPLETED via webhook for Order ID: 5O190127TN364715T, User ID: u1'',
          Warn ''User document not found for webhook customId: u1.'']"
proof -
  have n: "users empty_store ''u1'' = None" by (simp add: empty_store_def)
  have f: "fault sample_env = None" by (simp add: sample_env_def)
  show ?thesis
    using absent_user_soft_noop[OF sample_completed n, of sample_env] sample_completed n f
    by (simp add: sample_fields)
qed

subsection \<open>Delivering a notification twice\<close>

text \<open>
  C5. The claim has the commission applied at each of two deliveries of one notification.
  In the sample neither delivery applies it: both are answered 500 (the read of the
  salesperson's document is refused), the store is as before, the commission is still 30
  and no sale record exists. What the claim says of the missing guard is seen where a
  delivery succeeds: for the user without a salesperson both deliveries are answered
  200, and the second sets the expiry again, from the later clock.
\<close>

theorem redelivery_credits_nothing:
  "status (response (paypalWebhookHandler sample_env sample_request sample_store)) = 500
   \<and> final_store (paypalWebhookHandler sample_env sample_request sample_store) = sample_store
   \<and> status (response (paypalWebhookHandler later_env sample_request
         (final_store (paypalWebhookHandler sample_env sample_request sample_store)))) = 500
   \<and> final_store (paypalWebhookHandler later_env sample_request
         (final_store (paypalWebhookHandler sample_env sample_request sample_store)))
       = sample_store
   \<and> Option.bind (map_of (salespersons sample_store) ''Ann Lee'') currentMonthEarnings
       = Some (Num 30)
   \<and> individualSales sample_store (''Ann Lee'', ''2023-11'') = []
   \<and> status (response (paypalWebhookHandler sample_env sample_request solo_store)) = 200
   \<and> status (response (paypalWebhookHandler later_env sample_request
         (final_store (paypalWebhookHandler sample_env sample_request solo_store)))) = 200
   \<and> Option.bind
        (users (final_store (paypalWebhookHandler later_env sample_request
           (final_store (paypalWebhookHandler sample_env sample_request solo_store)))) ''u1'')
        membershipExpiry = Some 1701209660000"
proof -
  have f: "fault sample_env = None" "fault later_env = None"
    by (simp_all add: sample_env_def later_env_def)
  have first: "status (response (paypalWebhookHandler sample_env sample_request sample_store)) = 500"
    "final_store (paypalWebhookHandler sample_env sample_request sample_store) = sample_store"
    by (rule linked_user_aborts[OF sample_completed sample_user_found sample_ref])+
  have second: "status (response (paypalWebhookHandler later_env sample_request sample_store)) = 500"
    "final_store (paypalWebhookHandler later_env sample_request sample_store) = sample_store"
    by (rule linked_user_aborts[OF sample_completed sample_user_found sample_ref])+
  have kept: "Option.bind (map_of (salespersons sample_store) ''Ann Lee'') currentMonthEarnings
                = Some (Num 30)"
    "individualSales sample_store (''Ann Lee'', ''2023-11'') = []"
    by (simp_all add: sample_store_def sample_salesperson_def)
  have later_now: "now later_env = 1700000060000" by (simp add: later_env_def)
  have ok1: "status (response (paypalWebhookHandler sample_env sample_request solo_store)) = 200"
    by (rule solo_answer[OF f(1) solo_user_found])
  let ?s1 = "final_store (paypalWebhookHandler sample_env sample_request solo_store)"
  have u1: "users ?s1 ''u1'' =
      Some (solo_user\<lparr>paymentStatus := Some ''paid'',
              membershipExpiry := Some (now sample_env + 14 * 24 * 60 * 60 * 1000),
              lastPaymentDate := Some (server_time sample_env),
              paypalOrderId := paid_orderId (read_payment sample_resource),
              paypalPayerEmail := paid_payerEmail (read_payment sample_resource),
              paypalGrossAmount := Some (paid_grossAmount (read_payment sample_resource)),
              paypalCurrencyCode := paid_currencyCode (read_payment sample_resource)\<rparr>)"
    by (simp add: success_updates_user[OF sample_completed solo_user_found ok1])
  have ref1: "present (Option.bind (salesperson
      (solo_user\<lparr>paymentStatus := Some ''paid'',
              membershipExpiry := Some (now sample_env + 14 * 24 * 60 * 60 * 1000),
              lastPaymentDate := Some (server_time sample_env),
              paypalOrderId := paid_orderId (read_payment sample_resource),
              paypalPayerEmail := paid_payerEmail (read_payment sample_resource),
              paypalGrossAmount := Some (paid_grossAmount (read_payment sample_resource)),
              paypalCurrencyCode := paid_currencyCode (read_payment sample_resource)\<rparr>))
      ref_fullName) = None"
    by (simp add: solo_user_def)
  have ok2: "status (response (paypalWebhookHandler later_env sample_request ?s1)) = 200"
    by (rule solo_user_succeeds[OF sample_completed u1 ref1 _ _ _ f(2)])
       (simp_all add: sample_fields)
  have exp2: "Option.bind (users (final_store (paypalWebhookHandler later_env sample_request ?s1))
                 ''u1'') membershipExpiry = Some 1701209660000"
    using f by (simp add: success_updates_user[OF sample_completed u1 ok2] later_now)
  show ?thesis using first second kept ok1 ok2 exp2 by simp
qed

subsection \<open>A notification without an amount value\<close>

text \<open>
  What holds: a notification that reaches the transaction without an amount value
  (missing, or empty) has the paid amount 0; and when it carries its order id, the
  payer's email and the currency code, the user's record names no salesperson and no
  call to the store raises, the answer is 200 and the user is marked paid, with the
  expiry 14 days from now and the gross amount 0.
\<close>

lemma missing_amount_user_paid:
  assumes "completed_payment req r uid"
    and "present (Option.bind (Option.bind (first_unit (purchase_units r)) pu_amount) amt_value)
           = None"
    and "users s uid = Some u"
    and "present (Option.bind (salesperson u) ref_fullName) = None"
    and "paid_orderId (read_payment r) \<noteq> None"
    and "paid_payerEmail (read_payment r) \<noteq> None"
    and "paid_currencyCode (read_payment r) \<noteq> None"
    and "fault e = None"
  shows "status (response (paypalWebhookHandler e req s)) = 200
         \<and> (\<exists>u'. users (final_store (paypalWebhookHandler e req s)) uid = Some u'
               \<and> paymentStatus u' = Some ''paid''
               \<and> membershipExpiry u' = Some (now e + 14 * 24 * 60 * 60 * 1000)
               \<and> paypalGrossAmount u' = Some (Num 0))"
proof -
  have ok: "status (response (paypalWebhookHandler e req s)) = 200"
    by (rule solo_user_succeeds[OF assms(1,3,4,5,6,7,8)])
  show ?thesis
    using ok missing_value_reads_zero[OF assms(2)]
    by (simp add: success_updates_user[OF assms(1,3) ok])
qed

text \<open>
  C10. The claim has the user marked paid and, for a linked salesperson, a sale of amount
  0 recorded and the sale count incremented. In the sample the notification has no
  amount value and the user's record names a salesperson: the amount reads as 0, but
  the read of the salesperson's document is refused, the answer is 500, the user stays
  unpaid and nothing is recorded. And where the whole amount is absent the currency
  code is undefined, the update of the user is refused, and the answer is 500 even for
  the user without a salesperson.
\<close>

theorem missing_amount_linked_user_not_recorded:
  "present (Option.bind (Option.bind (first_unit (purchase_units unpriced_resource)) pu_amount)
             amt_value) = None
   \<and> paid_grossAmount (read_payment unpriced_resource) = Num 0
   \<and> paid_currencyCode (read_payment unpriced_resource) = Some ''USD''
   \<and> status (response (paypalWebhookHandler sample_env unpriced_request sample_store)) = 500
   \<and> final_store (paypalWebhookHandler sample_env unpriced_request sample_store) = sample_store
   \<and> Option.bind (users sample_store ''u1'') paymentStatus = Some ''pending''
   \<and> individualSales sample_store (''Ann Lee'', ''2023-11'') = []
   \<and> Option.bind (map_of (salespersons sample_store) ''Ann Lee'') totalSales = Some (Num 2)
   \<and> paid_currencyCode (read_payment amountless_resource) = None
   \<and> status (response (paypalWebhookHandler sample_env amountless_request solo_store)) = 500
   \<and> final_store (paypalWebhookHandler sample_env amountless_request solo_store) = solo_store"
proof -
  have v: "present (Option.bind (Option.bind (first_unit (purchase_units unpriced_resource))
                                   pu_amount) amt_value) = None"
    by (simp add: unpriced_resource_def)
  have c: "paid_currencyCode (read_payment unpriced_resource) = Some ''USD''"
    "paid_currencyCode (read_payment amountless_resource) = None"
    by (simp_all add: read_payment_def unpriced_resource_def amountless_resource_def)
  have kept: "Option.bind (users sample_store ''u1'') paymentStatus = Some ''pending''"
    "individualSales sample_store (''Ann Lee'', ''2023-11'') = []"
    "Option.bind (map_of (salespersons sample_store) ''Ann Lee'') totalSales = Some (Num 2)"
    by (simp_all add: sample_store_def sample_user_def sample_salesperson_def)
  have a: "status (response (paypalWebhookHandler sample_env amountless_request solo_store)) = 500"
    "final_store (paypalWebhookHandler sample_env amountless_request solo_store) = solo_store"
    using c(2) solo_user_found
    by (simp_all add: handler_completed_payment[OF amountless_completed] runTransaction_def
          reconcile_def Let_def sample_env_def)
  show ?thesis
    using v missing_value_reads_zero[OF v] c kept a
      linked_user_aborts[OF unpriced_completed sample_user_found sample_ref, of sample_env]
    by simp
qed

section \<open>Monthly rollover: archive and reset\<close>

lemma commit_batch_append:
  "commit_batch e (ws @ vs) s = commit_batch e vs (commit_batch e ws s)"
  by (induction ws arbitrary: s) simp_all

lemma build_batch_no_fault:
  "fault e = None \<Longrightarrow> build_batch e docs = Some (concat (map (rollover_doc e) docs))"
  by (induction docs) simp_all

lemma rollover_doc_payouts:
  "historicalPayouts (commit_batch e (rollover_doc e doc) s) =
     (if archived (snd doc)
      then (historicalPayouts s)((fst doc, currentMonth e) \<mapsto>
             \<lparr>month = currentMonth e, earnings = or_zero (currentMonthEarnings (snd doc)),
              totalCustomers = or_zero (totalSales (snd doc)), archivedAt = server_time e\<rparr>)
      else historicalPayouts s)"
  by (simp add: rollover_doc_def)

lemma rollover_doc_salespersons:
  "salespersons (commit_batch e (rollover_doc e doc) s) =
     AList.map_entry (fst doc)
       (\<lambda>d. d\<lparr>currentMonthEarnings := Some (Num 0), totalSales := Some (Num 0)\<rparr>)
       (salespersons s)"
  by (simp add: rollover_doc_def)

lemma payouts_of_others:
  "sp \<notin> fst ` set docs \<Longrightarrow>
     historicalPayouts (commit_batch e (concat (map (rollover_doc e) docs)) s) (sp, m)
       = historicalPayouts s (sp, m)"
proof (induction docs arbitrary: s)
  case Nil
  then show ?case by simp
next
  case (Cons doc docs)
  then show ?case
    by (simp add: commit_batch_append rollover_doc_payouts)
qed

lemma payouts_after_batch:
  assumes "distinct (map fst docs)" and "(sp, d) \<in> set docs"
  shows "historicalPayouts (commit_batch e (concat (map (rollover_doc e) docs)) s) (sp, m) =
           (if archived d \<and> m = currentMonth e
            then Some \<lparr>month = currentMonth e, earnings = or_zero (currentMonthEarnings d),
                       totalCustomers = or_zero (totalSales d), archivedAt = server_time e\<rparr>
            else historicalPayouts s (sp, m))"
  using assms
proof (induction docs arbitrary: s)
  case Nil
  then show ?case by simp
next
  case (Cons doc docs)
  show ?case
  proof (cases "(sp, d) = doc")
    case True
    with Cons.prems have "sp \<notin> fst ` set docs" by force
    with True show ?thesis
      by (auto simp: commit_batch_append payouts_of_others rollover_doc_payouts)
  next
    case False
    with Cons.prems have rest: "(sp, d) \<in> set docs" "distinct (map fst docs)"
      by auto
    from rest(1) have "sp \<in> fst ` set docs" by force
    with Cons.prems(1) have "fst doc \<noteq> sp" by auto
    with rest Cons.IH[of "commit_batch e (rollover_doc e doc) s"] show ?thesis
      by (simp add: commit_batch_append rollover_doc_payouts)
  qed
qed

lemma salespersons_after_batch:
  "map_of (salespersons (commit_batch e (concat (map (rollover_doc e) docs)) s)) sp =
     (if sp \<in> fst ` set docs
      then map_option (\<lambda>d. d\<lparr>currentMonthEarnings := Some (Num 0), totalSales := Some (Num 0)\<rparr>)
             (map_of (salespersons s) sp)
      else map_of (salespersons s) sp)"
proof (induction docs arbitrary: s)
  case Nil
  then show ?case by simp
next
  case (Cons doc docs)
  show ?case
    by (cases "map_of (salespersons s) sp")
       (auto simp: commit_batch_append Cons.IH rollover_doc_salespersons map_of_map_entry)
qed

text \<open>
  C6, as amended. For every salesperson document of the collection (identifiers being
  distinct, no call to the store raising): the job succeeds and leaves the document
  with earnings 0 and sale count 0; if its earnings were \<open>E > 0\<close>, the historical
  record of the current month holds the earnings \<open>E\<close> and the sale count; if both its
  earnings and its sale count were 0, its historical records are as before.
\<close>

theorem rollover_archives_and_resets:
  assumes "distinct (map fst (salespersons s))"
    and "(sp, d) \<in> set (salespersons s)"
    and "fault e = None"
  shows "\<exists>s'. resetMonthlyEarnings e s = Some s'
           \<and> map_of (salespersons s') sp
               = Some (d\<lparr>currentMonthEarnings := Some (Num 0), totalSales := Some (Num 0)\<rparr>)
           \<and> (\<forall>E. currentMonthEarnings d = Some (Num E) \<and> 0 < E \<longrightarrow>
                 historicalPayouts s' (sp, currentMonth e)
                   = Some \<lparr>month = currentMonth e, earnings = Num E,
                           totalCustomers = or_zero (totalSales d),
                           archivedAt = server_time e\<rparr>)
           \<and> (or_zero (currentMonthEarnings d) = Num 0 \<and> or_zero (totalSales d) = Num 0 \<longrightarrow>
                 (\<forall>m. historicalPayouts s' (sp, m) = historicalPayouts s (sp, m)))"
proof -
  let ?s' = "commit_batch e (concat (map (rollover_doc e) (salespersons s))) s"
  have run: "resetMonthlyEarnings e s = Some ?s'"
    using assms(3) by (simp add: resetMonthlyEarnings_def build_batch_no_fault)
  have found: "map_of (salespersons s) sp = Some d"
    using assms(1,2) by simp
  have doc: "map_of (salespersons ?s') sp
               = Some (d\<lparr>currentMonthEarnings := Some (Num 0), totalSales := Some (Num 0)\<rparr>)"
    using assms(2) found by (force simp: salespersons_after_batch)
  have arch: "historicalPayouts ?s' (sp, currentMonth e)
                = Some \<lparr>month = currentMonth e, earnings = Num E,
                        totalCustomers = or_zero (totalSales d), archivedAt = server_time e\<rparr>"
    if "currentMonthEarnings d = Some (Num E) \<and> 0 < E" for E
    using that by (simp add: payouts_after_batch[OF assms(1,2)] archived_def)
  have none: "historicalPayouts ?s' (sp, m) = historicalPayouts s (sp, m)"
    if "or_zero (currentMonthEarnings d) = Num 0 \<and> or_zero (totalSales d) = Num 0" for m
    using that by (simp add: payouts_after_batch[OF assms(1,2)] archived_def)
  show ?thesis using run doc arch none by blast
qed

theorem rollover_archives_and_resets_witness:
  "distinct (map fst (salespersons mixed_store))
   \<and> (''Ann Lee'', sample_salesperson) \<in> set (salespersons mixed_store)
   \<and> (''Bo Moyo'', sample_salesperson\<lparr>currentMonthEarnings := Some (Num 0),
                                       totalSales := Some (Num 0)\<rparr>)
        \<in> set (salespersons mixed_store)
   \<and> fault sample_env = None
   \<and> (\<exists>s'. resetMonthlyEarnings sample_env mixed_store = Some s'
          \<and> Option.bind (map_of (salespersons s') ''Ann Lee'') currentMonthEarnings
              = Some (Num 0)
          \<and> historicalPayouts s' (''Ann Lee'', ''2023-11'')
              = Some \<lparr>month = ''2023-11'', earnings = Num 30, totalCustomers = Num 2,
                      archivedAt = 1700000000250\<rparr>
          \<and> (\<forall>m. historicalPayouts s' (''Bo Moyo'', m) = None))"
proof -
  have d: "distinct (map fst (salespersons mixed_store))"
    and a: "(''Ann Lee'', sample_salesperson) \<in> set (salespersons mixed_store)"
    and b: "(''Bo Moyo'', sample_salesperson\<lparr>currentMonthEarnings := Some (Num 0),
                                             totalSales := Some (Num 0)\<rparr>)
              \<in> set (salespersons mixed_store)"
    by (simp_all add: mixed_store_def)
  have f: "fault sample_env = None" by (simp add: sample_env_def)
  have e: "server_time sample_env = 1700000000250" "currentMonth sample_env = ''2023-11''"
    by (simp_all add: sample_env_def)
  have h: "historicalPayouts mixed_store = Map.empty" by (simp add: mixed_store_def)
  have v: "currentMonthEarnings sample_salesperson = Some (Num 30)"
    "or_zero (totalSales sample_salesperson) = Num 2"
    by (simp_all add: sample_salesperson_def)
  from rollover_archives_and_resets[OF d a f] obtain s1 where
    s1: "resetMonthlyEarnings sample_env mixed_store = Some s1"
      "map_of (salespersons s1) ''Ann Lee''
         = Some (sample_salesperson\<lparr>currentMonthEarnings := Some (Num 0),
                                     totalSales := Some (Num 0)\<rparr>)"
      "historicalPayouts s1 (''Ann Lee'', ''2023-11'')
         = Some \<lparr>month = ''2023-11'', earnings = Num 30, totalCustomers = Num 2,
                 archivedAt = 1700000000250\<rparr>"
    using v by (auto simp: e)
  from rollover_archives_and_resets[OF d b f] obtain s2 where
    s2: "resetMonthlyEarnings sample_env mixed_store = Some s2"
      "\<forall>m. historicalPayouts s2 (''Bo Moyo'', m) = None"
    by (auto simp: h)
  from s1(1) s2(1) have "s2 = s1" by simp
  with s1 s2(2) d a b f show ?thesis by simp
qed

text \<open>
  The claim as first stated promises no historical record whenever the earnings are 0.
  A document with earnings 0 and one sale is archived all the same, because the test is
  \<open>currentMonthEarnings > 0 || totalSales > 0\<close>.
\<close>

theorem rollover_zero_earnings_counterexample:
  "Option.bind (map_of (salespersons idle_store) ''Ann Lee'') currentMonthEarnings = Some (Num 0)
   \<and> Option.bind (map_of (salespersons idle_store) ''Ann Lee'') totalSales = Some (Num 1)
   \<and> historicalPayouts idle_store (''Ann Lee'', ''2023-11'') = None
   \<and> resetMonthlyEarnings sample_env idle_store \<noteq> None
   \<and> historicalPayouts (the (resetMonthlyEarnings sample_env idle_store)) (''Ann Lee'', ''2023-11'')
       = Some \<lparr>month = ''2023-11'', earnings = Num 0, totalCustomers = Num 1,
               archivedAt = 1700000000250\<rparr>"
  by (simp add: idle_store_def sample_env_def sample_salesperson_def resetMonthlyEarnings_def
        rollover_doc_def archived_def)

section \<open>Reporting for a salesperson without a record\<close>

text \<open>
  C9. An authenticated reporting call that names a salesperson without a stored record and
  a period, with the read of the store not raising, returns the total commission 0 and
  no sale records; it does not raise. This holds for the monthly and for the yearly
  report.
\<close>

theorem report_for_unknown_salesperson:
  assumes "authenticated request"
    and "present (salespersonId request) = Some sp"
    and "map_of (salespersons s) sp = None"
    and "fault e = None"
  shows "(present (yearMonth request) \<noteq> None \<longrightarrow>
            getMonthlySalesReport e request s
              = Inr \<lparr>totalCommission = Number (Num 0), report_sales = [],
                      message = Some ''Salesperson not found or no sales data.''\<rparr>)
         \<and> (present (year request) \<noteq> None \<longrightarrow>
               getYearlySalesReport e request s
                 = Inr \<lparr>totalCommission = Number (Num 0), report_sales = [],
                         message = Some ''Salesperson not found or no sales data.''\<rparr>)"
  using assms by (auto simp: getMonthlySalesReport_def getYearlySalesReport_def)

theorem report_for_unknown_salesperson_witness:
  "authenticated sample_report_request
   \<and> present (salespersonId sample_report_request) = Some ''Bo Moyo''
   \<and> map_of (salespersons sample_store) ''Bo Moyo'' = None
   \<and> fault sample_env = None
   \<and> present (yearMonth sample_report_request) \<noteq> None
   \<and> present (year sample_report_request) \<noteq> None
   \<and> getMonthlySalesReport sample_env sample_report_request sample_store
       = Inr \<lparr>totalCommission = Number (Num 0), report_sales = [],
               message = Some ''Salesperson not found or no sales data.''\<rparr>
   \<and> getYearlySalesReport sample_env sample_report_request sample_store
       = Inr \<lparr>totalCommission = Number (Num 0), report_sales = [],
               message = Some ''Salesperson not found or no sales data.''\<rparr>"
proof -
  have a: "authenticated sample_report_request"
    and b: "present (salespersonId sample_report_request) = Some ''Bo Moyo''"
    and p: "present (yearMonth sample_report_request) \<noteq> None"
           "present (year sample_report_request) \<noteq> None"
    by (simp_all add: sample_report_request_def)
  have c: "map_of (salespersons sample_store) ''Bo Moyo'' = None"
    by (simp add: sample_store_def)
  have f: "fault sample_env = None" by (simp add: sample_env_def)
  show ?thesis
    using report_for_unknown_salesperson[OF a b c f] a b c f p by simp
qed

end
